theory Spec2Isabelle
  imports Complex_Main
begin

section \<open>JavaScript values and strings\<close>

text \<open>
  A request body is a parsed JSON object. Reading a member that the object does not have
  gives \<open>undefined\<close>, so a body is a total function from member names to values.
  Strings are lists of code units; the model covers the code units below 256 (Latin-1).
\<close>

datatype jsval =
    JUndefined
  | JNull
  | JBool bool
  | JNum rat
  | JStr string
  | JArr "jsval list"
  | JObj "(string \<times> jsval) list"

type_synonym body = "string \<Rightarrow> jsval"

text \<open>\<open>!v\<close> is false exactly on the truthy values.\<close>

fun truthy :: "jsval \<Rightarrow> bool" where
  "truthy JUndefined = False"
| "truthy JNull = False"
| "truthy (JBool b) = b"
| "truthy (JNum n) = (n \<noteq> 0)"
| "truthy (JStr s) = (s \<noteq> [])"
| "truthy (JArr xs) = True"
| "truthy (JObj kvs) = True"

fun typeof :: "jsval \<Rightarrow> string" where
  "typeof JUndefined = ''undefined''"
| "typeof JNull = ''object''"
| "typeof (JBool b) = ''boolean''"
| "typeof (JNum n) = ''number''"
| "typeof (JStr s) = ''string''"
| "typeof (JArr xs) = ''object''"
| "typeof (JObj kvs) = ''object''"

text \<open>The string held by a string value; only read behind a \<open>typeof\<close> guard.\<close>

fun str_of :: "jsval \<Rightarrow> string" where
  "str_of (JStr s) = s"
| "str_of _ = []"

text \<open>White space and line terminators below 256: what \<open>trim\<close> strips and \<open>\s\<close> matches.\<close>

definition is_ws :: "char \<Rightarrow> bool" where
  "is_ws c = (c \<in> set [CHR 0x09, CHR 0x0A, CHR 0x0B, CHR 0x0C, CHR 0x0D, CHR 0x20, CHR 0xA0])"

definition trim :: "string \<Rightarrow> string" where
  "trim s = rev (dropWhile is_ws (rev (dropWhile is_ws s)))"

definition lower_char :: "char \<Rightarrow> char" where
  "lower_char c =
     (let n = (of_char c :: nat)
      in if (65 \<le> n \<and> n \<le> 90) \<or> (192 \<le> n \<and> n \<le> 222 \<and> n \<noteq> 215)
         then char_of (n + 32) else c)"

definition toLowerCase :: "string \<Rightarrow> string" where
  "toLowerCase s = map lower_char s"

text \<open>\<open>s.includes(t)\<close>: \<open>t\<close> occurs in \<open>s\<close> as a contiguous run.\<close>

fun str_includes :: "string \<Rightarrow> string \<Rightarrow> bool" where
  "str_includes [] t = (t = [])"
| "str_includes (c # s) t = (take (length t) (c # s) = t \<or> str_includes s t)"

section \<open>Regular expressions of the validator\<close>

text \<open>
  Both patterns of the validator are anchored at \<open>^\<close> and \<open>$\<close>, so \<open>test\<close> asks whether
  the whole string belongs to the language of the pattern. Membership is decided by
  derivatives.
\<close>

datatype rx =
    RNone
  | REps
  | RCls "char \<Rightarrow> bool"
  | RAlt rx rx
  | RSeq rx rx
  | RStar rx

fun nullable :: "rx \<Rightarrow> bool" where
  "nullable RNone = False"
| "nullable REps = True"
| "nullable (RCls p) = False"
| "nullable (RAlt r s) = (nullable r \<or> nullable s)"
| "nullable (RSeq r s) = (nullable r \<and> nullable s)"
| "nullable (RStar r) = True"

fun deriv :: "char \<Rightarrow> rx \<Rightarrow> rx" where
  "deriv c RNone = RNone"
| "deriv c REps = RNone"
| "deriv c (RCls p) = (if p c then REps else RNone)"
| "deriv c (RAlt r s) = RAlt (deriv c r) (deriv c s)"
| "deriv c (RSeq r s) =
     (if nullable r then RAlt (RSeq (deriv c r) s) (deriv c s) else RSeq (deriv c r) s)"
| "deriv c (RStar r) = RSeq (deriv c r) (RStar r)"

fun rx_test :: "rx \<Rightarrow> string \<Rightarrow> bool" where
  "rx_test r [] = nullable r"
| "rx_test r (c # s) = rx_test (deriv c r) s"

definition ropt :: "rx \<Rightarrow> rx" where
  "ropt r = RAlt r REps"

definition rplus :: "rx \<Rightarrow> rx" where
  "rplus r = RSeq r (RStar r)"

fun rseq :: "rx list \<Rightarrow> rx" where
  "rseq [] = REps"
| "rseq [r] = r"
| "rseq (r # rs) = RSeq r (rseq rs)"

definition is_digit :: "char \<Rightarrow> bool" where
  "is_digit c = (c \<in> set ''0123456789'')"

text \<open>\<open>/^[^\s@]+@[^\s@]+\.[^\s@]+$/\<close>\<close>

definition emailRegex :: rx where
  "emailRegex =
     (let part = rplus (RCls (\<lambda>c. \<not> is_ws c \<and> c \<noteq> CHR ''@''))
      in rseq [part, RCls (\<lambda>c. c = CHR ''@''), part, RCls (\<lambda>c. c = CHR ''.''), part])"

text \<open>\<open>/^[\+]?[(]?[0-9]{3}[)]?[-\s\.]?[0-9]{3}[-\s\.]?[0-9]{4,6}$/\<close>\<close>

definition phoneRegex :: rx where
  "phoneRegex =
     (let d = RCls is_digit;
          sep = ropt (RCls (\<lambda>c. c = CHR ''-'' \<or> is_ws c \<or> c = CHR ''.''))
      in rseq [ropt (RCls (\<lambda>c. c = CHR ''+'')), ropt (RCls (\<lambda>c. c = CHR ''('')),
               d, d, d, ropt (RCls (\<lambda>c. c = CHR '')'')), sep,
               d, d, d, sep,
               d, d, d, d, ropt d, ropt d])"

section \<open>Records, the runtime and the document store\<close>

text \<open>
  A \<open>Date\<close> object is its time value in milliseconds; \<open>None\<close> is the time value \<open>NaN\<close>
  of an invalid date.
\<close>

type_synonym jsdate = "int option"

text \<open>
  \<open>updateData\<close> is the object that Update passes to \<open>$set\<close>; the object that Create
  inserts has the same members and \<open>createdAt\<close>. A stored document is that object
  together with its \<open>_id\<close>.
\<close>

record updateData =
  name :: string
  email :: string
  phone :: string
  course :: string
  feeStatus :: string
  joinDate :: jsdate
  notes' :: string
  updatedAt :: jsdate

record student = updateData +
  createdAt :: jsdate

type_synonym 'oid doc = "'oid \<times> student"

type_synonym 'oid collection = "'oid doc list"

text \<open>
  What the server takes from Node and from the MongoDB driver, none of it code of this
  repository: the string conversion of a number, an array or an object, and the \<open>Date\<close>
  constructor (each \<open>None\<close> when the conversion throws, as it does for an object whose
  own \<open>toString\<close> member is not callable), \<open>ObjectId.isValid\<close>, the \<open>ObjectId\<close>
  constructor (\<open>None\<close> when it throws) and the hexadecimal form of an identifier, the
  match of a \<open>$regex\<close> pattern with option \<open>i\<close> against a field, and the ordering that
  \<open>sort\<close> applies to a result.
\<close>

record 'oid env =
  ToString :: "jsval \<Rightarrow> string option"
  Date_new :: "jsval \<Rightarrow> jsdate option"
  isValid :: "string \<Rightarrow> bool"
  ObjectId_new :: "string \<Rightarrow> 'oid option"
  toHexString :: "'oid \<Rightarrow> string"
  regex_i :: "string \<Rightarrow> string \<Rightarrow> bool"
  sort_docs :: "string \<Rightarrow> int \<Rightarrow> 'oid collection \<Rightarrow> 'oid collection"

text \<open>
  \<open>String(v)\<close>, the conversion that \<open>RegExp.test\<close> applies to its argument; \<open>None\<close> when
  it throws a \<open>TypeError\<close>.
\<close>

fun js_String :: "'oid env \<Rightarrow> jsval \<Rightarrow> string option" where
  "js_String E (JStr s) = Some s"
| "js_String E JUndefined = Some ''undefined''"
| "js_String E JNull = Some ''null''"
| "js_String E (JBool b) = Some (if b then ''true'' else ''false'')"
| "js_String E v = ToString E v"

subsection \<open>Validation\<close>

definition validStatuses :: "string list" where
  "validStatuses = [''Paid'', ''Pending'', ''Partial'', ''Scholarship'']"

text \<open>
  The result is \<open>None\<close> when the function throws: \<open>phoneRegex.test\<close> converts a phone
  that is not a string, and \<open>new Date\<close> converts a join date that is not one, and either
  conversion can throw.
\<close>

definition validateStudent :: "'oid env \<Rightarrow> body \<Rightarrow> string list option" where
  "validateStudent E data =
     (let errors = [];
          errors =
            (if \<not> truthy (data ''name'') \<or> typeof (data ''name'') \<noteq> ''string''
                \<or> length (trim (str_of (data ''name''))) < 2
             then errors @ [''Name is required and must be at least 2 characters'']
             else errors);
          errors =
            (if \<not> truthy (data ''email'') \<or> typeof (data ''email'') \<noteq> ''string''
             then errors @ [''Email is required'']
             else if \<not> rx_test emailRegex (str_of (data ''email''))
             then errors @ [''Invalid email format'']
             else errors)
      in case (if truthy (data ''phone'')
               then (case js_String E (data ''phone'') of
                       None \<Rightarrow> None
                     | Some phoneText \<Rightarrow>
                         Some (if \<not> rx_test phoneRegex phoneText
                               then errors @ [''Invalid phone number format'']
                               else errors))
               else Some errors) of
        None \<Rightarrow> None
      | Some errors \<Rightarrow>
     (let errors =
            (if \<not> truthy (data ''course'') \<or> typeof (data ''course'') \<noteq> ''string''
                \<or> length (trim (str_of (data ''course''))) < 2
             then errors @ [''Course/Service is required and must be at least 2 characters'']
             else errors);
          errors =
            (if \<not> truthy (data ''feeStatus'') \<or> data ''feeStatus'' \<notin> JStr ` set validStatuses
             then errors @ [''Valid fee status is required'']
             else errors)
      in case (if \<not> truthy (data ''joinDate'')
               then Some (errors @ [''Join date is required''])
               else (case Date_new E (data ''joinDate'') of
                       None \<Rightarrow> None
                     | Some date \<Rightarrow>
                         Some (if date = None
                               then errors @ [''Invalid join date format'']
                               else errors))) of
        None \<Rightarrow> None
      | Some errors \<Rightarrow>
     (let errors =
            (if truthy (data ''notes'') \<and> typeof (data ''notes'') \<noteq> ''string''
             then errors @ [''Notes must be text'']
             else errors)
      in Some errors)))"

subsection \<open>The collection\<close>

text \<open>
  A filter document is a list of conditions that must all hold. The conditions are the
  ones the handlers build: equality on a text field, a case-insensitive \<open>$regex\<close> on a
  text field, equality and \<open>$ne\<close> on \<open>_id\<close>, and \<open>$or\<close>.
\<close>

datatype 'oid cond =
    FieldEq string string
  | FieldRegex string string
  | IdEq 'oid
  | IdNe 'oid
  | Or "'oid cond list"

type_synonym 'oid filter = "'oid cond list"

definition text_field :: "string \<Rightarrow> student \<Rightarrow> string option" where
  "text_field k d =
     (if k = ''name'' then Some (name d)
      else if k = ''email'' then Some (email d)
      else if k = ''phone'' then Some (phone d)
      else if k = ''course'' then Some (course d)
      else if k = ''feeStatus'' then Some (feeStatus d)
      else if k = ''notes'' then Some (notes' d)
      else None)"

fun holds :: "'oid env \<Rightarrow> 'oid doc \<Rightarrow> 'oid cond \<Rightarrow> bool" where
  "holds E d (FieldEq k v) = (text_field k (snd d) = Some v)"
| "holds E d (FieldRegex k p) =
     (case text_field k (snd d) of None \<Rightarrow> False | Some s \<Rightarrow> regex_i E p s)"
| "holds E d (IdEq i) = (fst d = i)"
| "holds E d (IdNe i) = (fst d \<noteq> i)"
| "holds E d (Or cs) = list_ex (holds E d) cs"

definition matches :: "'oid env \<Rightarrow> 'oid filter \<Rightarrow> 'oid doc \<Rightarrow> bool" where
  "matches E flt d = list_all (holds E d) flt"

definition findOne :: "'oid env \<Rightarrow> 'oid filter \<Rightarrow> 'oid collection \<Rightarrow> 'oid doc option" where
  "findOne E flt c = find (matches E flt) c"


text \<open>
  The collection has a unique index on \<open>_id\<close> and, from \<open>createIndexes\<close>, one on
  \<open>email\<close>. A write that would break an index throws: the result is \<open>None\<close>.
\<close>

definition insertOne :: "'oid doc \<Rightarrow> 'oid collection \<Rightarrow> 'oid collection option" where
  "insertOne d c =
     (if fst d \<in> fst ` set c \<or> email (snd d) \<in> (email \<circ> snd) ` set c then None
      else Some (c @ [d]))"

definition apply_set :: "updateData \<Rightarrow> student \<Rightarrow> student" where
  "apply_set u d =
     d\<lparr>name := name u, email := email u, phone := phone u, course := course u,
       feeStatus := feeStatus u, joinDate := joinDate u, notes' := notes' u,
       updatedAt := updatedAt u\<rparr>"

fun replace_first :: "'a \<Rightarrow> 'a \<Rightarrow> 'a list \<Rightarrow> 'a list" where
  "replace_first x y [] = []"
| "replace_first x y (z # zs) = (if z = x then y # zs else z # replace_first x y zs)"

text \<open>The result of \<open>updateOne\<close> is \<open>matchedCount\<close> and the collection after the write.\<close>

definition updateOne ::
  "'oid env \<Rightarrow> 'oid filter \<Rightarrow> updateData \<Rightarrow> 'oid collection \<Rightarrow> (nat \<times> 'oid collection) option"
where
  "updateOne E flt u c =
     (case findOne E flt c of
        None \<Rightarrow> Some (0, c)
      | Some d \<Rightarrow>
          if email u \<in> (email \<circ> snd) ` set (remove1 d c) then None
          else Some (1, replace_first d (fst d, apply_set u (snd d)) c))"

text \<open>The result of \<open>deleteOne\<close> is \<open>deletedCount\<close> and the collection after the write.\<close>

definition deleteOne :: "'oid env \<Rightarrow> 'oid filter \<Rightarrow> 'oid collection \<Rightarrow> nat \<times> 'oid collection" where
  "deleteOne E flt c =
     (case findOne E flt c of None \<Rightarrow> (0, c) | Some d \<Rightarrow> (1, remove1 d c))"

section \<open>The request handlers\<close>

datatype 'oid response =
    Created "'oid doc"
  | OkList nat "'oid collection"
  | OkRecord "'oid doc"
  | Updated "'oid doc option"
  | Deleted
  | ValidationFailed "string list"
  | InvalidIdFormat
  | NotFound
  | Conflict
  | InternalError

fun status :: "'oid response \<Rightarrow> nat" where
  "status (Created d) = 201"
| "status (OkList n ds) = 200"
| "status (OkRecord d) = 200"
| "status (Updated d) = 200"
| "status Deleted = 200"
| "status (ValidationFailed es) = 400"
| "status InvalidIdFormat = 400"
| "status NotFound = 404"
| "status Conflict = 409"
| "status InternalError = 500"

text \<open>
  \<open>v.trim()\<close> and \<open>v?.trim() || ''\<close>. A JSON value that is not a string has no callable
  \<open>trim\<close>: the call throws a \<open>TypeError\<close>, here \<open>None\<close>. With \<open>?.\<close> the values
  \<open>undefined\<close> and \<open>null\<close> give \<open>undefined\<close> instead, which \<open>||\<close> turns into \<open>''\<close>.
\<close>

fun call_trim :: "jsval \<Rightarrow> string option" where
  "call_trim (JStr s) = Some (trim s)"
| "call_trim _ = None"

fun opt_trim :: "jsval \<Rightarrow> string option" where
  "opt_trim JUndefined = Some []"
| "opt_trim JNull = Some []"
| "opt_trim (JStr s) = Some (trim s)"
| "opt_trim _ = None"

text \<open>
  The object literal of Update; \<open>t\<close> is the clock when \<open>new Date()\<close> runs. \<open>feeStatus\<close> is
  copied as it is, and is a string once validation has passed. The result is \<open>None\<close> when
  a member of the literal throws.
\<close>

definition prepare_update :: "'oid env \<Rightarrow> body \<Rightarrow> int \<Rightarrow> updateData option" where
  "prepare_update E b t =
     (case call_trim (b ''name'') of None \<Rightarrow> None | Some n \<Rightarrow>
      case call_trim (b ''email'') of None \<Rightarrow> None | Some e \<Rightarrow>
      case opt_trim (b ''phone'') of None \<Rightarrow> None | Some p \<Rightarrow>
      case call_trim (b ''course'') of None \<Rightarrow> None | Some c \<Rightarrow>
      case Date_new E (b ''joinDate'') of None \<Rightarrow> None | Some date \<Rightarrow>
      case opt_trim (b ''notes'') of None \<Rightarrow> None | Some nt \<Rightarrow>
        Some \<lparr>name = n, email = toLowerCase e, phone = p, course = c,
              feeStatus = str_of (b ''feeStatus''),
              joinDate = date, notes' = nt, updatedAt = Some t\<rparr>)"

text \<open>The object literal of Create; \<open>tc\<close> and \<open>tu\<close> are its two readings of the clock.\<close>

definition prepare_student :: "'oid env \<Rightarrow> body \<Rightarrow> int \<Rightarrow> int \<Rightarrow> student option" where
  "prepare_student E b tc tu =
     (case call_trim (b ''name'') of None \<Rightarrow> None | Some n \<Rightarrow>
      case call_trim (b ''email'') of None \<Rightarrow> None | Some e \<Rightarrow>
      case opt_trim (b ''phone'') of None \<Rightarrow> None | Some p \<Rightarrow>
      case call_trim (b ''course'') of None \<Rightarrow> None | Some c \<Rightarrow>
      case Date_new E (b ''joinDate'') of None \<Rightarrow> None | Some date \<Rightarrow>
      case opt_trim (b ''notes'') of None \<Rightarrow> None | Some nt \<Rightarrow>
        Some \<lparr>name = n, email = toLowerCase e, phone = p, course = c,
              feeStatus = str_of (b ''feeStatus''),
              joinDate = date, notes' = nt, updatedAt = Some tu,
              createdAt = Some tc\<rparr>)"

text \<open>
  \<open>POST /api/records\<close>. \<open>oid\<close> is the identifier the driver generates for the insert.
  Every exception ends in the \<open>catch\<close> block, which answers 500.
\<close>

definition create_record ::
  "'oid env \<Rightarrow> 'oid collection \<Rightarrow> body \<Rightarrow> 'oid \<Rightarrow> int \<Rightarrow> int \<Rightarrow> 'oid response \<times> 'oid collection"
where
  "create_record E c b oid tc tu =
     (case validateStudent E b of
        None \<Rightarrow> (InternalError, c)
      | Some errors \<Rightarrow>
      if length errors > 0 then (ValidationFailed errors, c)
      else case prepare_student E b tc tu of
        None \<Rightarrow> (InternalError, c)
      | Some st \<Rightarrow>
          (case findOne E [FieldEq ''email'' (email st)] c of
             Some existingStudent \<Rightarrow> (Conflict, c)
           | None \<Rightarrow>
               (case insertOne (oid, st) c of
                  None \<Rightarrow> (InternalError, c)
                | Some c' \<Rightarrow> (Created (oid, st), c'))))"




text \<open>\<open>GET /api/records/:id\<close>\<close>

definition get_record :: "'oid env \<Rightarrow> 'oid collection \<Rightarrow> string \<Rightarrow> 'oid response" where
  "get_record E c ident =
     (if \<not> isValid E ident then InvalidIdFormat
      else case ObjectId_new E ident of
        None \<Rightarrow> InternalError
      | Some oid \<Rightarrow>
          (case findOne E [IdEq oid] c of
             None \<Rightarrow> NotFound
           | Some st \<Rightarrow> OkRecord st))"

text \<open>\<open>PUT /api/records/:id\<close>\<close>

definition update_record ::
  "'oid env \<Rightarrow> 'oid collection \<Rightarrow> string \<Rightarrow> body \<Rightarrow> int \<Rightarrow> 'oid response \<times> 'oid collection"
where
  "update_record E c ident b t =
     (if \<not> isValid E ident then (InvalidIdFormat, c)
      else case validateStudent E b of
        None \<Rightarrow> (InternalError, c)
      | Some errors \<Rightarrow>
      if length errors > 0 then (ValidationFailed errors, c)
      else case prepare_update E b t of
        None \<Rightarrow> (InternalError, c)
      | Some u \<Rightarrow>
          (case ObjectId_new E ident of
             None \<Rightarrow> (InternalError, c)
           | Some oid \<Rightarrow>
               (case findOne E [FieldEq ''email'' (email u), IdNe oid] c of
                  Some existingStudent \<Rightarrow> (Conflict, c)
                | None \<Rightarrow>
                    (case updateOne E [IdEq oid] u c of
                       None \<Rightarrow> (InternalError, c)
                     | Some (matchedCount, c') \<Rightarrow>
                         if matchedCount = 0 then (NotFound, c')
                         else (Updated (findOne E [IdEq oid] c'), c')))))"

text \<open>\<open>DELETE /api/records/:id\<close>\<close>

definition delete_record ::
  "'oid env \<Rightarrow> 'oid collection \<Rightarrow> string \<Rightarrow> 'oid response \<times> 'oid collection"
where
  "delete_record E c ident =
     (if \<not> isValid E ident then (InvalidIdFormat, c)
      else case ObjectId_new E ident of
        None \<Rightarrow> (InternalError, c)
      | Some oid \<Rightarrow>
          (case deleteOne E [IdEq oid] c of
             (deletedCount, c') \<Rightarrow>
               if deletedCount = 0 then (NotFound, c') else (Deleted, c')))"

section \<open>The client's filter\<close>

text \<open>
  \<open>filterStudents\<close> reads the loaded list, the search box and the status selector, and
  hands the list it computes to \<open>renderTable\<close>. The loaded records are the documents the
  server sent.
\<close>

definition filterStudents :: "'oid collection \<Rightarrow> string \<Rightarrow> string \<Rightarrow> 'oid collection" where
  "filterStudents currentStudents searchInput filterStatus =
     (let searchTerm = trim (toLowerCase searchInput);
          statusFilter = filterStatus
      in filter (\<lambda>d.
           let student = snd d;
               matchesSearch = (searchTerm = [] \<or>
                 str_includes (toLowerCase (name student)) searchTerm \<or>
                 str_includes (toLowerCase (email student)) searchTerm \<or>
                 str_includes (toLowerCase (course student)) searchTerm);
               matchesStatus = (statusFilter = [] \<or> feeStatus student = statusFilter)
           in matchesSearch \<and> matchesStatus) currentStudents)"

section \<open>The blocks of the validator\<close>

text \<open>
  The tests the validator applies to name and course, to email and to the fee status: a
  string whose trimmed length is at least 2; a non-empty string, and one that matches the
  email pattern; one of the four enumerated strings.
\<close>

definition text_rule :: "jsval \<Rightarrow> bool" where
  "text_rule v = (case v of JStr s \<Rightarrow> 2 \<le> length (trim s) | _ \<Rightarrow> False)"

definition email_given :: "jsval \<Rightarrow> bool" where
  "email_given v = (case v of JStr s \<Rightarrow> s \<noteq> [] | _ \<Rightarrow> False)"

definition email_rule :: "jsval \<Rightarrow> bool" where
  "email_rule v = (case v of JStr s \<Rightarrow> rx_test emailRegex s | _ \<Rightarrow> False)"

definition feeStatus_rule :: "jsval \<Rightarrow> bool" where
  "feeStatus_rule v = (v \<in> set (map JStr validStatuses))"

text \<open>
  What each of the seven blocks of the validator adds to the list, as a function of the
  one member the block reads. The phone and the join date block give \<open>None\<close> when their
  conversion throws.
\<close>

definition name_errors :: "jsval \<Rightarrow> string list" where
  "name_errors v =
     (if text_rule v then [] else [''Name is required and must be at least 2 characters''])"

definition email_errors :: "jsval \<Rightarrow> string list" where
  "email_errors v =
     (if email_rule v then []
      else if email_given v then [''Invalid email format'']
      else [''Email is required''])"

definition phone_errors :: "'oid env \<Rightarrow> jsval \<Rightarrow> string list option" where
  "phone_errors E v =
     (if truthy v
      then (case js_String E v of
              None \<Rightarrow> None
            | Some phoneText \<Rightarrow>
                Some (if rx_test phoneRegex phoneText then []
                      else [''Invalid phone number format'']))
      else Some [])"

definition course_errors :: "jsval \<Rightarrow> string list" where
  "course_errors v =
     (if text_rule v then []
      else [''Course/Service is required and must be at least 2 characters''])"

definition feeStatus_errors :: "jsval \<Rightarrow> string list" where
  "feeStatus_errors v = (if feeStatus_rule v then [] else [''Valid fee status is required''])"

definition joinDate_errors :: "'oid env \<Rightarrow> jsval \<Rightarrow> string list option" where
  "joinDate_errors E v =
     (if \<not> truthy v then Some [''Join date is required'']
      else (case Date_new E v of
              None \<Rightarrow> None
            | Some date \<Rightarrow>
                Some (if date = None then [''Invalid join date format''] else [])))"

definition notes_errors :: "jsval \<Rightarrow> string list" where
  "notes_errors v =
     (if truthy v \<and> typeof v \<noteq> ''string'' then [''Notes must be text''] else [])"

definition block_errors :: "'oid env \<Rightarrow> body \<Rightarrow> string list option" where
  "block_errors E data =
     (case phone_errors E (data ''phone'') of
        None \<Rightarrow> None
      | Some phoneErrors \<Rightarrow>
          (case joinDate_errors E (data ''joinDate'') of
             None \<Rightarrow> None
           | Some dateErrors \<Rightarrow>
               Some (name_errors (data ''name'') @ email_errors (data ''email'') @
                     phoneErrors @ course_errors (data ''course'') @
                     feeStatus_errors (data ''feeStatus'') @ dateErrors @
                     notes_errors (data ''notes''))))"

section \<open>The rules for the optional members in the words of the specification\<close>

text \<open>
  Phone: optional; if provided, must match the phone pattern. Notes: optional; if
  provided, must be text. A member is provided when the payload holds a value for it that
  is neither \<open>null\<close> nor the empty string.
\<close>

definition provided :: "jsval \<Rightarrow> bool" where
  "provided v = (v \<noteq> JUndefined \<and> v \<noteq> JNull \<and> v \<noteq> JStr [])"

definition phone_rule :: "jsval \<Rightarrow> bool" where
  "phone_rule v =
     (if provided v then (case v of JStr s \<Rightarrow> rx_test phoneRegex s | _ \<Rightarrow> False) else True)"

definition notes_rule :: "jsval \<Rightarrow> bool" where
  "notes_rule v =
     (if provided v then (case v of JStr s \<Rightarrow> True | _ \<Rightarrow> False) else True)"

text \<open>A string contains a term case-insensitively.\<close>

definition contains_ci :: "string \<Rightarrow> string \<Rightarrow> bool" where
  "contains_ci s t = str_includes (toLowerCase s) (toLowerCase t)"

text \<open>A pattern none of whose character classes tells a letter from its lower case.\<close>

fun cls_inv :: "rx \<Rightarrow> bool" where
  "cls_inv RNone = True"
| "cls_inv REps = True"
| "cls_inv (RCls p) = (\<forall>c. p (lower_char c) = p c)"
| "cls_inv (RAlt r s) = (cls_inv r \<and> cls_inv s)"
| "cls_inv (RSeq r s) = (cls_inv r \<and> cls_inv s)"
| "cls_inv (RStar r) = cls_inv r"

text \<open>The two unique indexes, as a property of a collection.\<close>

definition unique_index :: "'oid collection \<Rightarrow> bool" where
  "unique_index c = (distinct (map fst c) \<and> distinct (map (email \<circ> snd) c))"

section \<open>A sample environment and sample data\<close>

text \<open>
  An environment that agrees with Node and the driver on the inputs used below: the
  string form of the number 1234567890 is its decimal digits, the conversion of the object
  \<open>{"toString": 1}\<close> to a string throws, \<open>2024-01-10\<close> is a date,
  an identifier is well formed when it is 24 hexadecimal digits, a pattern without
  metacharacters matches where the field contains it in any case, and a result of at most
  one document is sorted.
\<close>

definition hex24 :: "string \<Rightarrow> bool" where
  "hex24 s = (length s = 24 \<and> list_all (\<lambda>c. c \<in> set ''0123456789abcdefABCDEF'') s)"

definition sample_env :: "string env" where
  "sample_env =
     \<lparr>ToString =
        (\<lambda>v. if v = JNum 1234567890 then Some ''1234567890''
             else if v = JObj [(''toString'', JNum 1)] then None
             else Some ''[object Object]''),
      Date_new =
        (\<lambda>v. if v = JStr ''2024-01-10'' then Some (Some 1704844800000) else Some None),
      isValid = hex24,
      ObjectId_new = (\<lambda>s. if hex24 s then Some (toLowerCase s) else None),
      toHexString = (\<lambda>i. i),
      regex_i = (\<lambda>p s. contains_ci s p),
      sort_docs = (\<lambda>k dir ds. ds)\<rparr>"

definition jo_body :: body where
  "jo_body =
     (\<lambda>k. JUndefined)
       (''name'' := JStr ''Jo Lee'', ''email'' := JStr ''jo@x.com'',
        ''course'' := JStr ''CS101'', ''feeStatus'' := JStr ''Pending'',
        ''joinDate'' := JStr ''2024-01-10'')"

definition jo :: student where
  "jo = \<lparr>name = ''Jo Lee'', email = ''jo@x.com'', phone = [], course = ''CS101'',
          feeStatus = ''Pending'', joinDate = Some 1704844800000, notes' = [],
          updatedAt = Some 1704900000000, createdAt = Some 1704900000000\<rparr>"

definition jo_id :: string where
  "jo_id = ''65a000000000000000000001''"

definition other_id :: string where
  "other_id = ''65a000000000000000000002''"

section \<open>Strings and patterns under change of case\<close>

lemma lower_char_code:
  "(of_char (lower_char c) :: nat) =
     (if (65 \<le> (of_char c :: nat) \<and> (of_char c :: nat) \<le> 90) \<or>
         (192 \<le> (of_char c :: nat) \<and> (of_char c :: nat) \<le> 222 \<and> (of_char c :: nat) \<noteq> 215)
      then of_char c + 32 else of_char c)"
  by (simp add: lower_char_def Let_def)

text \<open>A character that is not a letter is the lower case of itself only.\<close>

lemma lower_char_eq_iff:
  assumes "(of_char d :: nat) < 65 \<or> (122 < (of_char d :: nat) \<and> (of_char d :: nat) < 192)"
  shows "(lower_char c = d) = (c = d)"
proof -
  have "(lower_char c = d) = ((of_char (lower_char c) :: nat) = of_char d)"
    by simp
  also have "\<dots> = ((of_char c :: nat) = of_char d)"
    using assms unfolding lower_char_code by auto
  finally show ?thesis by simp
qed

lemma is_ws_lower: "is_ws (lower_char c) = is_ws c"
  by (simp add: is_ws_def lower_char_eq_iff)

lemma dropWhile_lower:
  "dropWhile is_ws (map lower_char s) = map lower_char (dropWhile is_ws s)"
  by (induction s) (auto simp: is_ws_lower)

lemma toLowerCase_trim: "toLowerCase (trim s) = trim (toLowerCase s)"
  by (simp add: toLowerCase_def trim_def rev_map dropWhile_lower)

lemma toLowerCase_Nil_iff: "(toLowerCase s = []) = (s = [])"
  by (simp add: toLowerCase_def)

lemma deriv_lower: "cls_inv r \<Longrightarrow> deriv (lower_char c) r = deriv c r"
  by (induction r) auto

lemma cls_inv_deriv: "cls_inv r \<Longrightarrow> cls_inv (deriv c r)"
  by (induction r) auto

lemma rx_test_lower: "cls_inv r \<Longrightarrow> rx_test r (map lower_char s) = rx_test r s"
  by (induction s arbitrary: r) (auto simp: deriv_lower cls_inv_deriv)

lemma cls_inv_emailRegex: "cls_inv emailRegex"
  by (simp add: emailRegex_def rplus_def Let_def is_ws_lower lower_char_eq_iff)

lemma emailRegex_case:
  assumes "toLowerCase e1 = toLowerCase e2"
  shows "rx_test emailRegex e1 = rx_test emailRegex e2"
proof -
  have "rx_test emailRegex e1 = rx_test emailRegex (toLowerCase e1)"
    by (simp add: toLowerCase_def rx_test_lower cls_inv_emailRegex)
  also have "\<dots> = rx_test emailRegex (toLowerCase e2)"
    by (simp only: assms)
  also have "\<dots> = rx_test emailRegex e2"
    by (simp add: toLowerCase_def rx_test_lower cls_inv_emailRegex)
  finally show ?thesis .
qed

section \<open>Validation\<close>

lemma typeof_string: "(typeof v = ''string'') = (\<exists>s. v = JStr s)"
  by (cases v) simp_all

lemma text_cond:
  "(\<not> truthy v \<or> typeof v \<noteq> ''string'' \<or> length (trim (str_of v)) < 2) = (\<not> text_rule v)"
  by (cases v) (auto simp: text_rule_def trim_def)

lemma email_cond: "(\<not> truthy v \<or> typeof v \<noteq> ''string'') = (\<not> email_given v)"
  by (cases v) (auto simp: email_given_def)

lemma emailRegex_empty: "\<not> rx_test emailRegex []"
  by (simp add: emailRegex_def rplus_def Let_def)

lemma email_rule_given: "email_rule v \<Longrightarrow> email_given v"
  using emailRegex_empty by (cases v) (auto simp: email_rule_def email_given_def)

lemma email_given_test: "email_given v \<Longrightarrow> rx_test emailRegex (str_of v) = email_rule v"
  by (cases v) (auto simp: email_rule_def email_given_def)

lemma feeStatus_cond:
  "(\<not> truthy v \<or> v \<notin> JStr ` set validStatuses) = (\<not> feeStatus_rule v)"
  by (cases v) (auto simp: feeStatus_rule_def validStatuses_def)

lemma push_if1: "(if a then xs @ ys else xs @ zs) = xs @ (if a then ys else zs)"
  by simp

lemma push_if2: "(if a then xs @ ys else xs) = xs @ (if a then ys else [])"
  by simp

text \<open>
  Unless a conversion throws, the validator returns what all seven blocks add, in the
  order of the blocks: every violation is collected, not the first only.
\<close>

lemma validateStudent_blocks: "validateStudent E d = block_errors E d"
proof -
  have n: "name_errors (d ''name'') =
      (if \<not> truthy (d ''name'') \<or> typeof (d ''name'') \<noteq> ''string''
          \<or> length (trim (str_of (d ''name''))) < 2
       then [''Name is required and must be at least 2 characters''] else [])"
    unfolding text_cond by (simp add: name_errors_def)
  have c: "course_errors (d ''course'') =
      (if \<not> truthy (d ''course'') \<or> typeof (d ''course'') \<noteq> ''string''
          \<or> length (trim (str_of (d ''course''))) < 2
       then [''Course/Service is required and must be at least 2 characters''] else [])"
    unfolding text_cond by (simp add: course_errors_def)
  have e: "email_errors (d ''email'') =
      (if \<not> truthy (d ''email'') \<or> typeof (d ''email'') \<noteq> ''string''
       then [''Email is required'']
       else if \<not> rx_test emailRegex (str_of (d ''email''))
       then [''Invalid email format''] else [])"
    unfolding email_cond
    using email_rule_given[of "d ''email''"] email_given_test[of "d ''email''"]
    by (auto simp: email_errors_def)
  have f: "feeStatus_errors (d ''feeStatus'') =
      (if \<not> truthy (d ''feeStatus'') \<or> d ''feeStatus'' \<notin> JStr ` set validStatuses
       then [''Valid fee status is required''] else [])"
    unfolding feeStatus_cond by (simp add: feeStatus_errors_def)
  have p: "(if truthy (d ''phone'')
            then (case js_String E (d ''phone'') of
                    None \<Rightarrow> None
                  | Some phoneText \<Rightarrow>
                      Some (if \<not> rx_test phoneRegex phoneText
                            then xs @ [''Invalid phone number format'']
                            else xs))
            else Some xs) =
           map_option ((@) xs) (phone_errors E (d ''phone''))" for xs
    by (simp add: phone_errors_def split: option.splits)
  have j: "(if \<not> truthy (d ''joinDate'')
            then Some (xs @ [''Join date is required''])
            else (case Date_new E (d ''joinDate'') of
                    None \<Rightarrow> None
                  | Some date \<Rightarrow>
                      Some (if date = None
                            then xs @ [''Invalid join date format'']
                            else xs))) =
           map_option ((@) xs) (joinDate_errors E (d ''joinDate''))" for xs
    by (simp add: joinDate_errors_def split: option.splits)
  have l: "validateStudent E d =
      (case map_option ((@) (name_errors (d ''name'') @ email_errors (d ''email'')))
              (phone_errors E (d ''phone'')) of
         None \<Rightarrow> None
       | Some errors \<Rightarrow>
           (case map_option
                   ((@) (errors @ course_errors (d ''course'') @
                         feeStatus_errors (d ''feeStatus'')))
                   (joinDate_errors E (d ''joinDate'')) of
              None \<Rightarrow> None
            | Some errors \<Rightarrow> Some (errors @ notes_errors (d ''notes''))))"
    unfolding n c e f notes_errors_def validateStudent_def
    by (simp only: p j) (simp only: push_if1 push_if2 Let_def append_Nil append_assoc)
  show ?thesis
    unfolding l block_errors_def
    by (cases "phone_errors E (d ''phone'')"; cases "joinDate_errors E (d ''joinDate'')")
       simp_all
qed

lemma validateStudent_Some_Nil:
  "(validateStudent E d = Some []) =
     (text_rule (d ''name'') \<and> email_rule (d ''email'') \<and>
      phone_errors E (d ''phone'') = Some [] \<and>
      text_rule (d ''course'') \<and> feeStatus_rule (d ''feeStatus'') \<and>
      joinDate_errors E (d ''joinDate'') = Some [] \<and> notes_errors (d ''notes'') = [])"
  by (auto simp: validateStudent_blocks block_errors_def name_errors_def email_errors_def
      course_errors_def feeStatus_errors_def split: option.splits if_splits)

lemma create_invalid:
  "validateStudent E d = Some es \<Longrightarrow> es \<noteq> [] \<Longrightarrow>
   create_record E c d oid tc tu = (ValidationFailed es, c)"
  by (simp add: create_record_def)

lemma update_invalid:
  "isValid E ident \<Longrightarrow> validateStudent E d = Some es \<Longrightarrow> es \<noteq> [] \<Longrightarrow>
   update_record E c ident d t = (ValidationFailed es, c)"
  by (simp add: update_record_def)

lemma sample_jo_id_valid: "isValid sample_env jo_id"
  by code_simp

text \<open>
  C2. The validator is claimed to return, for every payload, the violations of all rules,
  the empty list exactly when the payload satisfies every rule, and Create and Update to
  report that list as a validation error. With \<open>notes: false\<close> the notes are provided and
  are not text, yet the validator returns the empty list and Create answers 500, not a
  validation error. The same holds for the phone given as the number 1234567890, and for
  the phone \<open>{"toString": 1}\<close> the validator throws and Create answers 500.
\<close>

theorem validateStudent_accepts_nontext:
  "provided (JBool False) \<and> \<not> notes_rule (JBool False) \<and>
   validateStudent sample_env (jo_body(''notes'' := JBool False)) = Some [] \<and>
   create_record sample_env [] (jo_body(''notes'' := JBool False)) jo_id
       1704900000000 1704900000000 =
     (InternalError, []) \<and>
   provided (JNum 1234567890) \<and> \<not> phone_rule (JNum 1234567890) \<and>
   validateStudent sample_env (jo_body(''phone'' := JNum 1234567890)) = Some [] \<and>
   create_record sample_env [] (jo_body(''phone'' := JNum 1234567890)) jo_id
       1704900000000 1704900000000 =
     (InternalError, []) \<and>
   validateStudent sample_env (jo_body(''phone'' := JObj [(''toString'', JNum 1)])) = None \<and>
   create_record sample_env [] (jo_body(''phone'' := JObj [(''toString'', JNum 1)])) jo_id
       1704900000000 1704900000000 =
     (InternalError, [])"
  by code_simp

theorem validateStudent_accepts_nontext_witness:
  "status (fst (create_record sample_env [] (jo_body(''notes'' := JBool False)) jo_id
       1704900000000 1704900000000)) = 500"
  using validateStudent_accepts_nontext by simp

section \<open>Malformed identifiers\<close>

text \<open>
  C6. An identifier that \<open>ObjectId.isValid\<close> rejects makes Get by id, Update and Delete
  answer with the invalid-identifier outcome, status 400, whatever the collection and the
  payload hold; none of them answers 404, and the collection is left as it is.
\<close>

theorem malformed_id_is_400:
  "\<not> isValid E ident \<Longrightarrow>
   get_record E c ident = InvalidIdFormat \<and>
   update_record E c ident b t = (InvalidIdFormat, c) \<and>
   delete_record E c ident = (InvalidIdFormat, c) \<and>
   status (InvalidIdFormat :: 'oid response) = 400 \<and>
   (InvalidIdFormat :: 'oid response) \<noteq> NotFound"
  by (simp add: get_record_def update_record_def delete_record_def)

lemma sample_not_an_id: "\<not> isValid sample_env ''not-an-id''"
  by code_simp

theorem malformed_id_is_400_witness:
  "\<not> isValid sample_env ''not-an-id'' \<and>
   get_record sample_env [(jo_id, jo)] ''not-an-id'' = InvalidIdFormat \<and>
   update_record sample_env [(jo_id, jo)] ''not-an-id'' jo_body 0 = (InvalidIdFormat, [(jo_id, jo)]) \<and>
   delete_record sample_env [(jo_id, jo)] ''not-an-id'' = (InvalidIdFormat, [(jo_id, jo)])"
  using malformed_id_is_400[OF sample_not_an_id, of "[(jo_id, jo)]" jo_body 0] sample_not_an_id
  by simp

section \<open>Email identity\<close>

lemma email_errors_case:
  assumes "toLowerCase e1 = toLowerCase e2"
  shows "email_errors (JStr e1) = email_errors (JStr e2)"
proof -
  have "(e1 = []) = (e2 = [])"
    using assms toLowerCase_Nil_iff by metis
  then show ?thesis
    by (simp add: email_errors_def email_rule_def email_given_def emailRegex_case[OF assms])
qed

lemma validateStudent_case:
  assumes "toLowerCase e1 = toLowerCase e2"
  shows "validateStudent E (b(''email'' := JStr e1)) = validateStudent E (b(''email'' := JStr e2))"
  by (simp add: validateStudent_blocks block_errors_def email_errors_case[OF assms]
      split: option.splits)

lemma normal_email_case:
  assumes "toLowerCase e1 = toLowerCase e2"
  shows "toLowerCase (trim e1) = toLowerCase (trim e2)"
  by (simp add: toLowerCase_trim assms)

lemma prepare_student_case:
  assumes "toLowerCase e1 = toLowerCase e2"
  shows "prepare_student E (b(''email'' := JStr e1)) tc tu =
         prepare_student E (b(''email'' := JStr e2)) tc tu"
  by (simp add: prepare_student_def normal_email_case[OF assms] split: option.splits)

lemma prepare_update_case:
  assumes "toLowerCase e1 = toLowerCase e2"
  shows "prepare_update E (b(''email'' := JStr e1)) t =
         prepare_update E (b(''email'' := JStr e2)) t"
  by (simp add: prepare_update_def normal_email_case[OF assms] split: option.splits)

lemma prepare_student_email:
  "prepare_student E b tc tu = Some st \<Longrightarrow> b ''email'' = JStr e \<Longrightarrow> email st = toLowerCase (trim e)"
  by (auto simp: prepare_student_def split: option.splits)

lemma prepare_update_email:
  "prepare_update E b t = Some u \<Longrightarrow> b ''email'' = JStr e \<Longrightarrow> email u = toLowerCase (trim e)"
  by (auto simp: prepare_update_def split: option.splits)

text \<open>
  C3. Two email strings that differ only in letter case are one identity for Create and for
  Update: with either of them in the payload, each handler gives the same response and
  the same collection, because the email that is looked up and stored is the trimmed,
  lower-cased form, which is the same for both.
\<close>

theorem email_identity_ignores_case:
  assumes "toLowerCase e1 = toLowerCase e2"
  shows "create_record E c (b(''email'' := JStr e1)) oid tc tu =
           create_record E c (b(''email'' := JStr e2)) oid tc tu \<and>
         update_record E c ident (b(''email'' := JStr e1)) t =
           update_record E c ident (b(''email'' := JStr e2)) t \<and>
         (\<forall>st. prepare_student E (b(''email'' := JStr e1)) tc tu = Some st \<longrightarrow>
            email st = toLowerCase (trim e1) \<and> email st = toLowerCase (trim e2)) \<and>
         (\<forall>u. prepare_update E (b(''email'' := JStr e1)) t = Some u \<longrightarrow>
            email u = toLowerCase (trim e1) \<and> email u = toLowerCase (trim e2))"
proof -
  have 1: "create_record E c (b(''email'' := JStr e1)) oid tc tu =
           create_record E c (b(''email'' := JStr e2)) oid tc tu"
    by (simp only: create_record_def validateStudent_case[OF assms] prepare_student_case[OF assms])
  have 2: "update_record E c ident (b(''email'' := JStr e1)) t =
           update_record E c ident (b(''email'' := JStr e2)) t"
    by (simp only: update_record_def validateStudent_case[OF assms] prepare_update_case[OF assms])
  have 3: "email st = toLowerCase (trim e1) \<and> email st = toLowerCase (trim e2)"
    if "prepare_student E (b(''email'' := JStr e1)) tc tu = Some st" for st
    using prepare_student_email[OF that, of e1] normal_email_case[OF assms] by simp
  have 4: "email u = toLowerCase (trim e1) \<and> email u = toLowerCase (trim e2)"
    if "prepare_update E (b(''email'' := JStr e1)) t = Some u" for u
    using prepare_update_email[OF that, of e1] normal_email_case[OF assms] by simp
  from 1 2 3 4 show ?thesis by blast
qed

lemma sample_case: "toLowerCase ''A@B.COM'' = toLowerCase ''a@b.com''"
  by code_simp

lemma sample_conflict:
  "create_record sample_env [(jo_id, jo\<lparr>email := ''a@b.com''\<rparr>)] (jo_body(''email'' := JStr ''a@b.com'')) other_id 0 0 =
     (Conflict, [(jo_id, jo\<lparr>email := ''a@b.com''\<rparr>)])"
  by code_simp

theorem email_identity_ignores_case_witness:
  "toLowerCase ''A@B.COM'' = toLowerCase ''a@b.com'' \<and>
   create_record sample_env [(jo_id, jo\<lparr>email := ''a@b.com''\<rparr>)]
       (jo_body(''email'' := JStr ''A@B.COM'')) other_id 0 0 =
     (Conflict, [(jo_id, jo\<lparr>email := ''a@b.com''\<rparr>)])"
  using email_identity_ignores_case[OF sample_case, of sample_env
      "[(jo_id, jo\<lparr>email := ''a@b.com''\<rparr>)]" jo_body other_id 0 0 jo_id 0]
    sample_case sample_conflict
  by simp

section \<open>Reading and writing the collection\<close>

lemma find_replace_first:
  "find P c = Some x \<Longrightarrow> P y \<Longrightarrow> find P (replace_first x y c) = Some y"
  by (induction c) (auto split: if_splits)

lemma find_fresh_append:
  "\<forall>x\<in>set c. \<not> P x \<Longrightarrow> P y \<Longrightarrow> find P (c @ [y]) = Some y"
  by (induction c) auto

lemma matches_IdEq: "matches E [IdEq i] d = (fst d = i)"
  by (simp add: matches_def)

lemma findOne_IdEq_fst: "findOne E [IdEq i] c = Some d \<Longrightarrow> fst d = i"
  by (auto simp: findOne_def matches_IdEq dest: find_Some_iff[THEN iffD1])

text \<open>What a payload that passed validation holds.\<close>

lemma valid_payload:
  assumes "validateStudent E b = Some []"
  shows "b ''name'' = JStr (str_of (b ''name''))"
    and "b ''email'' = JStr (str_of (b ''email''))"
    and "b ''course'' = JStr (str_of (b ''course''))"
    and "b ''feeStatus'' = JStr (str_of (b ''feeStatus''))"
    and "str_of (b ''feeStatus'') \<in> set validStatuses"
    and "\<exists>jd. Date_new E (b ''joinDate'') = Some (Some jd)"
proof -
  from assms have r: "text_rule (b ''name'')" "email_rule (b ''email'')" "text_rule (b ''course'')"
      "feeStatus_rule (b ''feeStatus'')" "joinDate_errors E (b ''joinDate'') = Some []"
    by (simp_all add: validateStudent_Some_Nil)
  show "b ''name'' = JStr (str_of (b ''name''))"
    using r(1) by (cases "b ''name''") (simp_all add: text_rule_def)
  show "b ''email'' = JStr (str_of (b ''email''))"
    using r(2) by (cases "b ''email''") (simp_all add: email_rule_def)
  show "b ''course'' = JStr (str_of (b ''course''))"
    using r(3) by (cases "b ''course''") (simp_all add: text_rule_def)
  show "b ''feeStatus'' = JStr (str_of (b ''feeStatus''))"
    using r(4) by (cases "b ''feeStatus''") (auto simp: feeStatus_rule_def)
  show "str_of (b ''feeStatus'') \<in> set validStatuses"
    using r(4) by (cases "b ''feeStatus''") (auto simp: feeStatus_rule_def)
  show "\<exists>jd. Date_new E (b ''joinDate'') = Some (Some jd)"
    using r(5) by (auto simp: joinDate_errors_def split: if_splits option.splits)
qed

lemma opt_trim_Some:
  "opt_trim v = Some p \<Longrightarrow>
   (v = JUndefined \<and> p = []) \<or> (v = JNull \<and> p = []) \<or> (\<exists>s. v = JStr s \<and> p = trim s)"
  by (cases v) auto

lemma call_trim_Some: "call_trim v = Some x \<Longrightarrow> x = trim (str_of v)"
  by (cases v) auto

lemma prepare_update_Some:
  assumes "prepare_update E b t = Some u"
  shows "u = \<lparr>name = trim (str_of (b ''name'')), email = toLowerCase (trim (str_of (b ''email''))),
              phone = phone u, course = trim (str_of (b ''course'')),
              feeStatus = str_of (b ''feeStatus''), joinDate = joinDate u,
              notes' = notes' u, updatedAt = Some t\<rparr>"
    and "opt_trim (b ''phone'') = Some (phone u)"
    and "opt_trim (b ''notes'') = Some (notes' u)"
    and "Date_new E (b ''joinDate'') = Some (joinDate u)"
  using assms
  by (auto simp: prepare_update_def split: option.splits dest!: call_trim_Some)

lemma prepare_student_Some:
  assumes "prepare_student E b tc tu = Some st"
  shows "st = \<lparr>name = trim (str_of (b ''name'')), email = toLowerCase (trim (str_of (b ''email''))),
              phone = phone st, course = trim (str_of (b ''course'')),
              feeStatus = str_of (b ''feeStatus''), joinDate = joinDate st,
              notes' = notes' st, updatedAt = Some tu, createdAt = Some tc\<rparr>"
    and "opt_trim (b ''phone'') = Some (phone st)"
    and "opt_trim (b ''notes'') = Some (notes' st)"
    and "Date_new E (b ''joinDate'') = Some (joinDate st)"
  using assms
  by (auto simp: prepare_student_def split: option.splits dest!: call_trim_Some)

section \<open>Update\<close>

lemma update_record_Updated:
  assumes "update_record E c ident b t = (Updated r, c')"
  shows "\<exists>u oid m. isValid E ident \<and> validateStudent E b = Some [] \<and> prepare_update E b t = Some u \<and>
           ObjectId_new E ident = Some oid \<and>
           findOne E [FieldEq ''email'' (email u), IdNe oid] c = None \<and>
           updateOne E [IdEq oid] u c = Some (m, c') \<and> m \<noteq> 0 \<and>
           r = findOne E [IdEq oid] c'"
  using assms
  by (auto simp: update_record_def Let_def split: if_splits option.splits prod.splits)

lemma updateOne_matched:
  assumes "updateOne E flt u c = Some (m, c')" "m \<noteq> 0"
  shows "\<exists>d. findOne E flt c = Some d \<and> c' = replace_first d (fst d, apply_set u (snd d)) c"
  using assms by (auto simp: updateOne_def split: option.splits if_splits)

text \<open>
  C7. A successful Update of an existing record answers with that record in which the
  editable fields hold the normalised payload (name and course trimmed, email trimmed and
  lower-cased, phone and notes trimmed or the empty string when absent or \<open>null\<close>,
  feeStatus as given, joinDate the date the payload's value converts to) and \<open>updatedAt\<close>
  holds the current time, while \<open>_id\<close> and \<open>createdAt\<close> are the stored ones; the
  collection differs from the old one in that record only.
\<close>

theorem update_replaces_editable_fields:
  assumes "update_record E c ident b t = (Updated r, c')"
  shows "\<exists>oid d n e p k f jd nt.
           ObjectId_new E ident = Some oid \<and> findOne E [IdEq oid] c = Some (oid, d) \<and>
           b ''name'' = JStr n \<and> b ''email'' = JStr e \<and>
           ((b ''phone'' = JUndefined \<and> p = []) \<or> (b ''phone'' = JNull \<and> p = []) \<or>
            (\<exists>s. b ''phone'' = JStr s \<and> p = trim s)) \<and>
           b ''course'' = JStr k \<and> b ''feeStatus'' = JStr f \<and>
           Date_new E (b ''joinDate'') = Some (Some jd) \<and>
           ((b ''notes'' = JUndefined \<and> nt = []) \<or> (b ''notes'' = JNull \<and> nt = []) \<or>
            (\<exists>s. b ''notes'' = JStr s \<and> nt = trim s)) \<and>
           r = Some (oid, d\<lparr>name := trim n, email := toLowerCase (trim e), phone := p,
                             course := trim k, feeStatus := f, joinDate := Some jd,
                             notes' := nt, updatedAt := Some t\<rparr>) \<and>
           c' = replace_first (oid, d)
                  (oid, d\<lparr>name := trim n, email := toLowerCase (trim e), phone := p,
                           course := trim k, feeStatus := f, joinDate := Some jd,
                           notes' := nt, updatedAt := Some t\<rparr>) c \<and>
           createdAt (d\<lparr>name := trim n, email := toLowerCase (trim e), phone := p,
                         course := trim k, feeStatus := f, joinDate := Some jd,
                         notes' := nt, updatedAt := Some t\<rparr>) = createdAt d"
proof -
  from update_record_Updated[OF assms] obtain u oid m where
    v: "validateStudent E b = Some []" and u: "prepare_update E b t = Some u" and
    o: "ObjectId_new E ident = Some oid" and
    w: "updateOne E [IdEq oid] u c = Some (m, c')" "m \<noteq> 0" and
    r: "r = findOne E [IdEq oid] c'"
    by blast
  from updateOne_matched[OF w] obtain x where
    x: "findOne E [IdEq oid] c = Some x" and
    c': "c' = replace_first x (fst x, apply_set u (snd x)) c"
    by blast
  obtain d where d: "x = (oid, d)"
    using findOne_IdEq_fst[OF x] by (cases x) simp
  obtain jd where jd: "Date_new E (b ''joinDate'') = Some (Some jd)"
    using valid_payload(6)[OF v] by blast
  with prepare_update_Some(4)[OF u] have ju: "joinDate u = Some jd"
    by simp
  define n where "n = str_of (b ''name'')"
  define e where "e = str_of (b ''email'')"
  define k where "k = str_of (b ''course'')"
  define f where "f = str_of (b ''feeStatus'')"
  define d' where "d' = d\<lparr>name := trim n, email := toLowerCase (trim e), phone := phone u,
                           course := trim k, feeStatus := f, joinDate := Some jd,
                           notes' := notes' u, updatedAt := Some t\<rparr>"
  have eq: "apply_set u d = d'"
    unfolding d'_def n_def e_def k_def f_def
    by (subst prepare_update_Some(1)[OF u]) (simp add: apply_set_def ju)
  have "findOne E [IdEq oid] c' = Some (oid, d')"
    using x unfolding c' d findOne_def
    by (simp add: find_replace_first matches_IdEq eq)
  with r have 1: "r = Some (oid, d')" by simp
  have 2: "c' = replace_first (oid, d) (oid, d') c"
    unfolding c' d by (simp add: eq)
  have 3: "createdAt d' = createdAt d"
    by (simp add: d'_def)
  have bn: "b ''name'' = JStr n" and be: "b ''email'' = JStr e"
    and bk: "b ''course'' = JStr k" and bf: "b ''feeStatus'' = JStr f"
    unfolding n_def e_def k_def f_def by (rule valid_payload[OF v])+
  note bp = opt_trim_Some[OF prepare_update_Some(2)[OF u]]
  note bnt = opt_trim_Some[OF prepare_update_Some(3)[OF u]]
  from o x[unfolded d] bn be bp bk bf jd bnt 1[unfolded d'_def] 2[unfolded d'_def]
    3[unfolded d'_def]
  show ?thesis
    by blast
qed

lemma sample_update_paid:
  "update_record sample_env [(jo_id, jo)] jo_id
       (jo_body(''feeStatus'' := JStr ''Paid'', ''phone'' := JStr ''123-456-7890'',
                ''notes'' := JStr '' paid in full ''))
       1704990000000 =
     (Updated (Some (jo_id, jo\<lparr>phone := ''123-456-7890'', feeStatus := ''Paid'',
                                 notes' := ''paid in full'', updatedAt := Some 1704990000000\<rparr>)),
      [(jo_id, jo\<lparr>phone := ''123-456-7890'', feeStatus := ''Paid'',
                   notes' := ''paid in full'', updatedAt := Some 1704990000000\<rparr>)])"
  by code_simp

theorem update_replaces_editable_fields_witness:
  "update_record sample_env [(jo_id, jo)] jo_id
       (jo_body(''feeStatus'' := JStr ''Paid'', ''phone'' := JStr ''123-456-7890'',
                ''notes'' := JStr '' paid in full ''))
       1704990000000 =
     (Updated (Some (jo_id, jo\<lparr>phone := ''123-456-7890'', feeStatus := ''Paid'',
                                 notes' := ''paid in full'', updatedAt := Some 1704990000000\<rparr>)),
      [(jo_id, jo\<lparr>phone := ''123-456-7890'', feeStatus := ''Paid'',
                   notes' := ''paid in full'', updatedAt := Some 1704990000000\<rparr>)]) \<and>
   (\<exists>oid d. ObjectId_new sample_env jo_id = Some oid \<and>
      findOne sample_env [IdEq oid] [(jo_id, jo)] = Some (oid, d))"
proof -
  from update_replaces_editable_fields[OF sample_update_paid]
  obtain oid d where "ObjectId_new sample_env jo_id = Some oid"
    and "findOne sample_env [IdEq oid] [(jo_id, jo)] = Some (oid, d)"
    by blast
  with sample_update_paid show ?thesis by blast
qed

section \<open>Create, then Get\<close>

lemma create_record_Created:
  assumes "create_record E c b oid tc tu = (Created x, c')"
  shows "\<exists>st. validateStudent E b = Some [] \<and> prepare_student E b tc tu = Some st \<and>
           findOne E [FieldEq ''email'' (email st)] c = None \<and>
           insertOne (oid, st) c = Some c' \<and> x = (oid, st)"
  using assms
  by (auto simp: create_record_def Let_def split: if_splits option.splits)

lemma insertOne_Some:
  "insertOne d c = Some c' \<Longrightarrow> c' = c @ [d] \<and> fst d \<notin> fst ` set c"
  by (auto simp: insertOne_def split: if_splits)

lemma findOne_inserted:
  assumes "insertOne (i, st) c = Some c'"
  shows "findOne E [IdEq i] c' = Some (i, st)"
proof -
  from insertOne_Some[OF assms] have c': "c' = c @ [(i, st)]" and fresh: "i \<notin> fst ` set c"
    by simp_all
  from fresh have "\<forall>x\<in>set c. \<not> matches E [IdEq i] x"
    by (auto simp: matches_IdEq)
  then show ?thesis
    unfolding c' findOne_def by (rule find_fresh_append) (simp add: matches_IdEq)
qed

text \<open>
  C8. When Create succeeds, Get with the identifier it assigned returns the record that
  Create answered with, and that record is the payload normalised: name and course
  trimmed, email trimmed and lower-cased, phone and notes trimmed or the empty string when
  absent, feeStatus as given, joinDate the date the payload's value parses to, and
  \<open>createdAt\<close> and \<open>updatedAt\<close> the server's clock. The driver is taken to read back the
  hexadecimal form of an identifier it generated.
\<close>

theorem create_then_get_roundtrip:
  assumes "create_record E c b oid tc tu = (Created (i, st), c')"
    and "isValid E (toHexString E i)"
    and "ObjectId_new E (toHexString E i) = Some i"
  shows "get_record E c' (toHexString E i) = OkRecord (i, st) \<and> i = oid \<and>
         (\<exists>n. b ''name'' = JStr n \<and> name st = trim n) \<and>
         (\<exists>e. b ''email'' = JStr e \<and> email st = toLowerCase (trim e)) \<and>
         ((b ''phone'' = JUndefined \<and> phone st = []) \<or> (b ''phone'' = JNull \<and> phone st = []) \<or>
          (\<exists>p. b ''phone'' = JStr p \<and> phone st = trim p)) \<and>
         (\<exists>k. b ''course'' = JStr k \<and> course st = trim k) \<and>
         b ''feeStatus'' = JStr (feeStatus st) \<and>
         Date_new E (b ''joinDate'') = Some (joinDate st) \<and> joinDate st \<noteq> None \<and>
         ((b ''notes'' = JUndefined \<and> notes' st = []) \<or> (b ''notes'' = JNull \<and> notes' st = []) \<or>
          (\<exists>p. b ''notes'' = JStr p \<and> notes' st = trim p)) \<and>
         createdAt st = Some tc \<and> updatedAt st = Some tu"
proof -
  from create_record_Created[OF assms(1)] have
    v: "validateStudent E b = Some []" and p: "prepare_student E b tc tu = Some st" and
    ins: "insertOne (oid, st) c = Some c'" and i: "i = oid"
    by auto
  have get: "get_record E c' (toHexString E i) = OkRecord (i, st)"
    using assms(2,3) findOne_inserted[OF ins, of E] i by (simp add: get_record_def)
  note f = prepare_student_Some[OF p]
  have nm: "name st = trim (str_of (b ''name''))"
    and em: "email st = toLowerCase (trim (str_of (b ''email'')))"
    and co: "course st = trim (str_of (b ''course''))"
    and fs: "feeStatus st = str_of (b ''feeStatus'')"
    and ca: "createdAt st = Some tc"
    and ua: "updatedAt st = Some tu"
    by (subst f(1), simp)+
  have c1: "\<exists>n. b ''name'' = JStr n \<and> name st = trim n"
    using valid_payload(1)[OF v] nm by blast
  have c2: "\<exists>e. b ''email'' = JStr e \<and> email st = toLowerCase (trim e)"
    using valid_payload(2)[OF v] em by blast
  have c3: "\<exists>k. b ''course'' = JStr k \<and> course st = trim k"
    using valid_payload(3)[OF v] co by blast
  have c4: "b ''feeStatus'' = JStr (feeStatus st)"
    unfolding fs by (rule valid_payload(4)[OF v])
  have c5: "joinDate st \<noteq> None"
    using valid_payload(6)[OF v] f(4) by auto
  from get i c1 c2 opt_trim_Some[OF f(2)] c3 c4 f(4) c5 opt_trim_Some[OF f(3)] ca ua
  show ?thesis
    by (intro conjI) assumption+
qed

lemma sample_create_jo:
  "create_record sample_env [] jo_body jo_id 1704900000000 1704900000000 =
     (Created (jo_id, jo), [(jo_id, jo)])"
  by code_simp

lemma sample_jo_id_reads_back:
  "isValid sample_env (toHexString sample_env jo_id) \<and>
   ObjectId_new sample_env (toHexString sample_env jo_id) = Some jo_id"
  by code_simp

theorem create_then_get_roundtrip_witness:
  "create_record sample_env [] jo_body jo_id 1704900000000 1704900000000 =
     (Created (jo_id, jo), [(jo_id, jo)]) \<and>
   get_record sample_env [(jo_id, jo)] (toHexString sample_env jo_id) = OkRecord (jo_id, jo)"
  using create_then_get_roundtrip[OF sample_create_jo
      conjunct1[OF sample_jo_id_reads_back] conjunct2[OF sample_jo_id_reads_back]]
    sample_create_jo
  by simp

section \<open>List\<close>







section \<open>The client's filter\<close>

text \<open>
  C9, as amended. The client's filter is a function of the loaded list, the search box and
  the status selector alone: it keeps a record exactly when (the lower-cased trimmed search
  term is empty, or the lower-cased name, email or course of the record contains it) and
  (the status filter is empty, or the record's feeStatus equals it).
\<close>

theorem filterStudents_keeps:
  "filterStudents currentStudents q f =
     filter (\<lambda>d. (toLowerCase (trim q) = [] \<or>
                   str_includes (toLowerCase (name (snd d))) (toLowerCase (trim q)) \<or>
                   str_includes (toLowerCase (email (snd d))) (toLowerCase (trim q)) \<or>
                   str_includes (toLowerCase (course (snd d))) (toLowerCase (trim q))) \<and>
                  (f = [] \<or> feeStatus (snd d) = f)) currentStudents"
  by (simp add: filterStudents_def Let_def toLowerCase_trim)

lemma sample_filter_lee: "filterStudents [(jo_id, jo)] '' LEE '' ''Pending'' = [(jo_id, jo)]"
  by code_simp

theorem filterStudents_keeps_witness:
  "filterStudents [(jo_id, jo)] '' LEE '' ''Pending'' = [(jo_id, jo)] \<and>
   filter (\<lambda>d. (toLowerCase (trim '' LEE '') = [] \<or>
                 str_includes (toLowerCase (name (snd d))) (toLowerCase (trim '' LEE '')) \<or>
                 str_includes (toLowerCase (email (snd d))) (toLowerCase (trim '' LEE '')) \<or>
                 str_includes (toLowerCase (course (snd d))) (toLowerCase (trim '' LEE ''))) \<and>
                (''Pending'' = [] \<or> feeStatus (snd d) = ''Pending'')) [(jo_id, jo)] =
     [(jo_id, jo)]"
  by (rule conjI[OF sample_filter_lee
        trans[OF filterStudents_keeps[of "[(jo_id, jo)]" "'' LEE ''" "''Pending''", symmetric]
          sample_filter_lee]])

text \<open>
  The claim as stated compares the term with the fields as they are stored; the code
  lower-cases the fields first, so a record is kept whose name contains the term only up
  to case.
\<close>

theorem filterStudents_case_counterexample:
  "filterStudents [(jo_id, jo)] ''lee'' [] = [(jo_id, jo)] \<and>
   \<not> ((toLowerCase (trim ''lee'') = [] \<or> str_includes (name jo) (toLowerCase (trim ''lee'')) \<or>
       str_includes (email jo) (toLowerCase (trim ''lee'')) \<or>
       str_includes (course jo) (toLowerCase (trim ''lee''))) \<and>
      ([] = ([] :: string) \<or> feeStatus jo = []))"
  by code_simp

section \<open>Conflict, self-exclusion and the order of the checks\<close>

text \<open>
  The next three lemmas hold for payloads whose object literal can be built, that is
  whose phone and notes are strings, \<open>null\<close> or absent.
\<close>

lemma findOne_email_Some:
  "(findOne E [FieldEq ''email'' e] c \<noteq> None) = (e \<in> (email \<circ> snd) ` set c)"
  by (force simp: findOne_def matches_def text_field_def find_None_iff image_iff)

lemma create_conflict:
  assumes "validateStudent E b = Some []" and "prepare_student E b tc tu = Some st"
    and "email st \<in> (email \<circ> snd) ` set c"
  shows "create_record E c b oid tc tu = (Conflict, c)"
proof -
  from assms(3) obtain x where "findOne E [FieldEq ''email'' (email st)] c = Some x"
    using findOne_email_Some[of E "email st" c] by auto
  with assms(1,2) show ?thesis
    by (simp add: create_record_def)
qed

lemma findOne_other_email_None:
  "(findOne E [FieldEq ''email'' e, IdNe i] c = None) =
     (\<forall>x\<in>set c. email (snd x) = e \<longrightarrow> fst x = i)"
  by (auto simp: findOne_def matches_def text_field_def find_None_iff)

lemma unique_index_email:
  "unique_index c \<Longrightarrow> x \<in> set c \<Longrightarrow> y \<in> set c \<Longrightarrow> email (snd x) = email (snd y) \<Longrightarrow> x = y"
  by (auto simp: unique_index_def distinct_map inj_on_def)

lemma unique_index_id:
  "unique_index c \<Longrightarrow> x \<in> set c \<Longrightarrow> y \<in> set c \<Longrightarrow> fst x = fst y \<Longrightarrow> x = y"
  by (auto simp: unique_index_def distinct_map inj_on_def)

lemma findOne_IdEq_member:
  assumes "unique_index c" and "(i, d) \<in> set c"
  shows "findOne E [IdEq i] c = Some (i, d)"
proof -
  have "\<exists>x. find (\<lambda>x. fst x = i) c = Some x"
    using assms(2) by (cases "find (\<lambda>x. fst x = i) c") (auto simp: find_None_iff)
  then obtain x where x: "find (\<lambda>x. fst x = i) c = Some x" by blast
  then have "x \<in> set c" "fst x = i"
    by (auto simp: find_Some_iff)
  with unique_index_id[OF assms(1) this(1) assms(2)] have "x = (i, d)" by simp
  with x show ?thesis
    by (simp add: findOne_def matches_IdEq[abs_def])
qed

lemma update_own_email:
  assumes "unique_index c" and "(oid, d) \<in> set c"
    and "isValid E ident" and "ObjectId_new E ident = Some oid"
    and "validateStudent E b = Some []" and "prepare_update E b t = Some u"
    and "email u = email d"
  shows "update_record E c ident b t =
           (Updated (Some (oid, apply_set u d)),
            replace_first (oid, d) (oid, apply_set u d) c)"
proof -
  have other: "findOne E [FieldEq ''email'' (email u), IdNe oid] c = None"
    unfolding findOne_other_email_None
    using unique_index_email[OF assms(1) _ assms(2)] assms(7) by fastforce
  have f: "findOne E [IdEq oid] c = Some (oid, d)"
    by (rule findOne_IdEq_member[OF assms(1,2)])
  have free: "email u \<notin> (email \<circ> snd) ` set (remove1 (oid, d) c)"
  proof
    assume "email u \<in> (email \<circ> snd) ` set (remove1 (oid, d) c)"
    then obtain x where x: "x \<in> set (remove1 (oid, d) c)" "email (snd x) = email u"
      by auto
    from assms(1) have "distinct c"
      by (simp add: unique_index_def distinct_map)
    with x(1) have "x \<in> set c" "x \<noteq> (oid, d)"
      by auto
    with unique_index_email[OF assms(1) this(1) assms(2)] x(2) assms(7) show False
      by simp
  qed
  have w: "updateOne E [IdEq oid] u c =
             Some (1, replace_first (oid, d) (oid, apply_set u d) c)"
    using f free by (simp add: updateOne_def)
  have g: "findOne E [IdEq oid] (replace_first (oid, d) (oid, apply_set u d) c) =
             Some (oid, apply_set u d)"
    using f unfolding findOne_def by (simp add: find_replace_first matches_IdEq)
  show ?thesis
    using assms(3-6) other w g by (simp add: update_record_def)
qed

lemma update_missing_id:
  assumes "isValid E ident" and "ObjectId_new E ident = Some oid"
    and "oid \<notin> fst ` set c"
    and "validateStudent E b = Some []" and "prepare_update E b t = Some u"
  shows "update_record E c ident b t =
           (if email u \<in> (email \<circ> snd) ` set c then (Conflict, c) else (NotFound, c))"
proof (cases "email u \<in> (email \<circ> snd) ` set c")
  case True
  then obtain x where "x \<in> set c" "email (snd x) = email u" by auto
  with assms(3) have "findOne E [FieldEq ''email'' (email u), IdNe oid] c \<noteq> None"
    unfolding findOne_other_email_None by force
  with True assms(1,2,4,5) show ?thesis
    by (auto simp: update_record_def)
next
  case False
  then have n: "findOne E [FieldEq ''email'' (email u), IdNe oid] c = None"
    unfolding findOne_other_email_None by force
  from assms(3) have "findOne E [IdEq oid] c = None"
    by (force simp: findOne_def matches_IdEq[abs_def] find_None_iff)
  then have "updateOne E [IdEq oid] u c = Some (0, c)"
    by (simp add: updateOne_def)
  with False n assms(1,2,4,5) show ?thesis
    by (simp add: update_record_def)
qed

text \<open>
  The validator lets through a phone that is not a string when its string form matches
  the pattern (the number 1234567890), and a value of phone or notes that is falsy and
  not a string (\<open>false\<close>, \<open>0\<close>). The object literals of Create and Update then call
  \<open>trim\<close> on it, the call throws, and the request ends in the \<open>catch\<close> block with
  status 500.
\<close>







end
